theory Spec2Isabelle
  imports Main "HOL-Library.Word"
begin

section \<open>Values of the Go program\<close>

text \<open>
  The package under verification is a facade over the zap logging library:
  \<^verbatim>\<open>zap.go\<close> builds the zap logger from a \<^verbatim>\<open>Config\<close> and implements the methods of
  \<^verbatim>\<open>baseLogger\<close>; \<^verbatim>\<open>log.go\<close> holds the \<^verbatim>\<open>Logger\<close> interface, the package variable
  \<^verbatim>\<open>logger\<close> and the package-level functions.

  A \<^verbatim>\<open>*zap.Logger\<close> is an address into a store of logger objects. The struct
  \<^verbatim>\<open>baseLogger\<close> embeds one such pointer. A value of the interface \<^verbatim>\<open>Logger\<close> is either
  a \<^verbatim>\<open>baseLogger\<close> or a value of some other type that implements the interface, of which
  only the identity is known.
\<close>

type_synonym addr = nat

record baseLogger =
  Logger :: addr

datatype Logger = BaseLogger baseLogger | ForeignLogger nat

text \<open>
  \<^verbatim>\<open>interface{}\<close> values, as far as the code tells them apart: the nil interface, booleans,
  integers, strings, slices of \<^verbatim>\<open>interface{}\<close>, \<^verbatim>\<open>zap.Field\<close> values and \<^verbatim>\<open>Logger\<close> values.
  A \<^verbatim>\<open>zap.Field\<close> is what \<^verbatim>\<open>zap.Any(key, value)\<close> builds: the key and the value it holds.
\<close>

datatype val =
    VNil
  | VBool bool
  | VInt int
  | VString string
  | VSlice "val list"
  | VField Field
  | VLogger Logger
and Field = Any string val

text \<open>The type assertions \<^verbatim>\<open>args[i].(zap.Field)\<close> and \<^verbatim>\<open>key.(string)\<close>.\<close>

fun is_Field :: "val \<Rightarrow> bool" where
  "is_Field (VField f) = True"
| "is_Field v = False"

fun as_string :: "val \<Rightarrow> string option" where
  "as_string (VString s) = Some s"
| "as_string v = None"

section \<open>Key-value coercion\<close>

text \<open>
  The loop of \<^verbatim>\<open>handleFields\<close>, with its index \<^verbatim>\<open>i\<close> and the slice \<^verbatim>\<open>fields\<close> built so far (\<open>flds\<close>).
  Each \<^verbatim>\<open>break\<close> leaves the loop with \<open>flds\<close> as it is. The read of \<^verbatim>\<open>args[i+1]\<close> happens only after the
  check \<^verbatim>\<open>i == len(args)-1\<close> has failed, so it is in range.
\<close>

function handleFields_loop :: "val list \<Rightarrow> nat \<Rightarrow> Field list \<Rightarrow> Field list" where
  "handleFields_loop args i flds =
     (if i < length args then
        if is_Field (args ! i) then flds
        else if i = length args - 1 then flds
        else (case as_string (args ! i) of
                None \<Rightarrow> flds
              | Some keyStr \<Rightarrow>
                  handleFields_loop args (i + 2) (flds @ [Any keyStr (args ! (i + 1))]))
      else flds)"
  by pat_completeness auto
termination
  by (relation "measure (\<lambda>(args, i, flds). length args - i)") auto

definition handleFields :: "val list \<Rightarrow> Field list \<Rightarrow> Field list" where
  "handleFields args additional =
     (if length args = 0 then additional
      else handleFields_loop args 0 [] @ additional)"

text \<open>
  The coercion as the specification words it: alternating key/value pairs are taken in
  order while the key is a string and has a value after it; the scan stops at the first
  element that is not such a key, and the rest is dropped.
\<close>

fun scan_pairs :: "val list \<Rightarrow> Field list" where
  "scan_pairs (VString k # v # rest) = Any k v # scan_pairs rest"
| "scan_pairs args = []"

section \<open>Severity levels\<close>

text \<open>
  \<^verbatim>\<open>zapcore.Level\<close> is an \<^verbatim>\<open>int8\<close>; the comparisons of the code are signed. The constants
  are those of zap.
\<close>

type_synonym Level = "8 word"

definition DebugLevel :: Level where "DebugLevel = - 1"
definition InfoLevel :: Level where "InfoLevel = 0"
definition WarnLevel :: Level where "WarnLevel = 1"
definition ErrorLevel :: Level where "ErrorLevel = 2"
definition DPanicLevel :: Level where "DPanicLevel = 3"
definition PanicLevel :: Level where "PanicLevel = 4"
definition FatalLevel :: Level where "FatalLevel = 5"

text \<open>
  A \<^verbatim>\<open>zapcore.LevelEnabler\<close> is one of: a \<^verbatim>\<open>zap.LevelEnablerFunc\<close>, which is enabled where
  the function says; a \<^verbatim>\<open>zap.AtomicLevel\<close>; a \<^verbatim>\<open>zapcore.Level\<close> itself. The last two are
  enabled for a level \<^verbatim>\<open>lvl\<close> when \<^verbatim>\<open>lvl >= l\<close> (zap's \<^verbatim>\<open>Level.Enabled\<close>).
\<close>

datatype LevelEnabler =
    LevelEnablerFunc "Level \<Rightarrow> bool"
  | AtomicLevel Level
  | LevelOf Level

fun Enabled :: "LevelEnabler \<Rightarrow> Level \<Rightarrow> bool" where
  "Enabled (LevelEnablerFunc f) lev = f lev"
| "Enabled (AtomicLevel l) lev = word_sle l lev"
| "Enabled (LevelOf l) lev = word_sle l lev"

definition NewAtomicLevelAt :: "Level \<Rightarrow> LevelEnabler" where
  "NewAtomicLevelAt l = AtomicLevel l"

section \<open>Strings\<close>

text \<open>
  A Go string is a sequence of bytes. \<^verbatim>\<open>strings.ToLower\<close> has two paths: on a string of
  ASCII bytes only it adds \<^verbatim>\<open>'a' - 'A'\<close> to each byte between \<^verbatim>\<open>'A'\<close> and \<^verbatim>\<open>'Z'\<close>; on any
  other string it maps \<^verbatim>\<open>unicode.ToLower\<close> over the runes. The second path depends on
  the Unicode tables of the Go runtime and is a parameter of the model.
\<close>

definition isASCII :: "char \<Rightarrow> bool" where
  "isASCII c = ((of_char c :: nat) < 128)"

definition toLowerASCII :: "char \<Rightarrow> char" where
  "toLowerASCII c =
     (if (65::nat) \<le> of_char c \<and> of_char c \<le> (90::nat)
      then char_of (of_char c + (32::nat)) else c)"

definition strings_ToLower :: "(string \<Rightarrow> string) \<Rightarrow> string \<Rightarrow> string" where
  "strings_ToLower unicodeLower s =
     (if list_all isASCII s then map toLowerASCII s else unicodeLower s)"

text \<open>\<^verbatim>\<open>logLevel\<close>: the switch on the lower-cased string, in the order of the source.\<close>

definition logLevel :: "(string \<Rightarrow> string) \<Rightarrow> string \<Rightarrow> Level" where
  "logLevel unicodeLower level =
     (let s = strings_ToLower unicodeLower level in
      if s = ''debug'' then DebugLevel
      else if s = ''info'' then InfoLevel
      else if s = ''warn'' \<or> s = ''warning'' then WarnLevel
      else if s = ''error'' then ErrorLevel
      else if s = ''fatal'' then FatalLevel
      else DebugLevel)"

section \<open>Configuration\<close>

text \<open>
  The struct \<^verbatim>\<open>Config\<close>. The \<^verbatim>\<open>int\<close> fields are only copied, never computed with. The
  constructor takes a \<^verbatim>\<open>*Config\<close> and writes through it, so every function that receives
  the pointer takes the record and returns it as it is after the call.
\<close>

record Config =
  LogDir :: string
  LogFile :: string
  MaxSize :: int
  MaxBackups :: int
  MaxAge :: int
  Compress :: bool
  LogLevel :: string
  JsonEncode :: bool
  StacktraceLevel :: string
  Stdout :: bool
  FilePerLevel :: bool

text \<open>
  What the process reads from outside the package: the value of
  \<^verbatim>\<open>os.Getenv("LOG_DIR")\<close> (the empty string when the variable is unset) and the
  non-ASCII path of \<^verbatim>\<open>strings.ToLower\<close>.
\<close>

record platform =
  LOG_DIR :: string
  unicode_ToLower :: "string \<Rightarrow> string"

section \<open>Sinks\<close>

text \<open>
  \<^verbatim>\<open>filepath.Join(dir, file)\<close> is kept as the pair of its arguments. The rotating file
  writer is the struct \<^verbatim>\<open>lumberjack.Logger\<close>. A \<^verbatim>\<open>zapcore.WriteSyncer\<close> is that writer,
  standard output, or several of them. The encoder configuration is the same constant for
  both encoders and does not depend on the \<^verbatim>\<open>Config\<close>; only the choice of encoder does.
\<close>

datatype path = filepath_Join string string

record lumberjack_Logger =
  Filename :: path
  hook_MaxSize :: int
  hook_MaxBackups :: int
  hook_MaxAge :: int
  hook_Compress :: bool
  hook_LocalTime :: bool

datatype WriteSyncer =
    AddSync_hook lumberjack_Logger
  | AddSync_Stdout
  | NewMultiWriteSyncer "WriteSyncer list"

datatype Encoder = NewConsoleEncoder | NewJSONEncoder

text \<open>
  A \<^verbatim>\<open>zapcore.Core\<close> built by \<^verbatim>\<open>zapcore.NewCore(enc, ws, enab)\<close>, with the fields that
  \<^verbatim>\<open>Core.With\<close> has added to it so far.
\<close>

record Core =
  enc :: Encoder
  out :: WriteSyncer
  enab :: LevelEnabler
  ctx :: "Field list"

definition NewCore :: "Encoder \<Rightarrow> WriteSyncer \<Rightarrow> LevelEnabler \<Rightarrow> Core" where
  "NewCore e ws level = \<lparr>enc = e, out = ws, enab = level, ctx = []\<rparr>"

definition Core_With :: "Field list \<Rightarrow> Core \<Rightarrow> Core" where
  "Core_With fs c = c\<lparr>ctx := ctx c @ fs\<rparr>"

definition newWriteSyncer :: "platform \<Rightarrow> Config \<Rightarrow> string \<Rightarrow> Config \<times> WriteSyncer" where
  "newWriteSyncer pf opts fileName =
     (let fileName1 = (if fileName = [] then LogFile opts else fileName);
          opts1 = (if LogDir opts = [] then opts\<lparr>LogDir := LOG_DIR pf\<rparr> else opts);
          hook = \<lparr>Filename = filepath_Join (LogDir opts1) fileName1,
                  hook_MaxSize = MaxSize opts1,
                  hook_MaxBackups = MaxBackups opts1,
                  hook_MaxAge = MaxAge opts1,
                  hook_Compress = Compress opts1,
                  hook_LocalTime = True\<rparr>
      in (opts1, AddSync_hook hook))"

definition NewZapCore :: "platform \<Rightarrow> Config \<Rightarrow> string \<Rightarrow> LevelEnabler \<Rightarrow> Config \<times> Core" where
  "NewZapCore pf opts fileName level =
     (let encoder = (if JsonEncode opts then NewJSONEncoder else NewConsoleEncoder);
          (opts1, writeSyncer) = newWriteSyncer pf opts fileName;
          writeSyncer1 = (if Stdout opts1
                          then NewMultiWriteSyncer [AddSync_Stdout, writeSyncer]
                          else writeSyncer)
      in (opts1, NewCore encoder writeSyncer1 level))"

section \<open>The zap logger and the store\<close>

text \<open>
  The fields of a \<^verbatim>\<open>zap.Logger\<close> that this package sets or reads: the cores under the tee,
  the name, the caller annotation and skip, and the enabler of stack traces. The options
  passed by this package are \<^verbatim>\<open>AddCaller\<close>, \<^verbatim>\<open>AddCallerSkip\<close> and \<^verbatim>\<open>AddStacktrace\<close>.
\<close>

record zap_Logger =
  core :: "Core list"
  name :: string
  addCaller :: bool
  callerSkip :: int
  addStack :: LevelEnabler

datatype Option = AddCaller | AddCallerSkip int | AddStacktrace LevelEnabler

fun apply_Option :: "Option \<Rightarrow> zap_Logger \<Rightarrow> zap_Logger" where
  "apply_Option AddCaller log = log\<lparr>addCaller := True\<rparr>"
| "apply_Option (AddCallerSkip skip) log = log\<lparr>callerSkip := callerSkip log + skip\<rparr>"
| "apply_Option (AddStacktrace lvl) log = log\<lparr>addStack := lvl\<rparr>"

text \<open>
  The store holds the logger objects; an address is an index into it. Allocation appends.
  Dereferencing an address outside the store (a nil pointer) is the panic of the Go
  program: \<open>None\<close>.
\<close>

type_synonym heap = "zap_Logger list"

definition lookup :: "heap \<Rightarrow> addr \<Rightarrow> zap_Logger option" where
  "lookup h p = (if p < length h then Some (h ! p) else None)"

definition alloc :: "heap \<Rightarrow> zap_Logger \<Rightarrow> heap \<times> addr" where
  "alloc h log = (h @ [log], length h)"

text \<open>
  The methods of \<^verbatim>\<open>*zap.Logger\<close> that the package calls, as zap documents them:
  \<^verbatim>\<open>WithOptions\<close> clones the logger and applies the options to the clone; \<^verbatim>\<open>Named\<close> returns
  the receiver for the empty name and otherwise a clone whose name has the new segment,
  joined by a period; \<^verbatim>\<open>With\<close> returns the receiver for no fields and otherwise a clone
  whose cores carry the fields; \<^verbatim>\<open>zap.New\<close> builds a logger (stack traces off: the
  enabler is \<^verbatim>\<open>FatalLevel + 1\<close>) and returns it with the options applied.
\<close>

definition zap_WithOptions :: "heap \<Rightarrow> addr \<Rightarrow> Option list \<Rightarrow> (heap \<times> addr) option" where
  "zap_WithOptions h log opts =
     (case lookup h log of
        None \<Rightarrow> None
      | Some l \<Rightarrow> Some (alloc h (fold apply_Option opts l)))"

definition zap_Named :: "heap \<Rightarrow> addr \<Rightarrow> string \<Rightarrow> (heap \<times> addr) option" where
  "zap_Named h log s =
     (if s = [] then Some (h, log)
      else (case lookup h log of
              None \<Rightarrow> None
            | Some l \<Rightarrow>
                Some (alloc h (l\<lparr>name := (if name l = [] then s else name l @ ''.'' @ s)\<rparr>))))"

definition zap_With :: "heap \<Rightarrow> addr \<Rightarrow> Field list \<Rightarrow> (heap \<times> addr) option" where
  "zap_With h log fs =
     (if length fs = 0 then Some (h, log)
      else (case lookup h log of
              None \<Rightarrow> None
            | Some l \<Rightarrow> Some (alloc h (l\<lparr>core := map (Core_With fs) (core l)\<rparr>))))"

definition zap_New :: "heap \<Rightarrow> Core list \<Rightarrow> Option list \<Rightarrow> heap \<times> addr" where
  "zap_New h cores opts =
     (let log = \<lparr>core = cores, name = [], addCaller = False, callerSkip = 0,
                 addStack = LevelOf (FatalLevel + 1)\<rparr>;
          (h1, p) = alloc h log
      in alloc h1 (fold apply_Option opts log))"

text \<open>
  What a logger writes for one call at level \<open>lev\<close>: every core whose enabler admits the
  level receives one entry, with the logger's name, the message, the fields of the core
  followed by the fields of the call, and whether a stack trace is attached.
\<close>

record Entry =
  entry_Level :: Level
  entry_LoggerName :: string
  entry_Message :: string
  entry_Stack :: bool
  entry_Fields :: "Field list"

definition zap_log :: "zap_Logger \<Rightarrow> Level \<Rightarrow> string \<Rightarrow> Field list \<Rightarrow> (WriteSyncer \<times> Entry) list" where
  "zap_log l lev msg fs =
     map (\<lambda>c. (out c, \<lparr>entry_Level = lev, entry_LoggerName = name l, entry_Message = msg,
                        entry_Stack = Enabled (addStack l) lev,
                        entry_Fields = ctx c @ fs\<rparr>))
         (filter (\<lambda>c. Enabled (enab c) lev) (core l))"

section \<open>Logger construction\<close>

text \<open>
  \<^verbatim>\<open>Zap\<close>: the cores are built left to right, each call receiving the \<^verbatim>\<open>Config\<close> as the
  call before left it; then the stack-trace level is defaulted in the \<^verbatim>\<open>Config\<close> and the
  logger is built. The result is the store, the \<^verbatim>\<open>Config\<close> after the call and the address
  of the new logger.
\<close>

definition debugPriority :: LevelEnabler where
  "debugPriority = LevelEnablerFunc (\<lambda>lev. lev = DebugLevel)"

definition infoPriority :: LevelEnabler where
  "infoPriority = LevelEnablerFunc (\<lambda>lev. lev = InfoLevel)"

definition warnPriority :: LevelEnabler where
  "warnPriority = LevelEnablerFunc (\<lambda>lev. lev = WarnLevel)"

definition errorPriority :: LevelEnabler where
  "errorPriority = LevelEnablerFunc (\<lambda>lev. word_sle ErrorLevel lev)"

definition Zap_cores :: "platform \<Rightarrow> Config \<Rightarrow> Config \<times> Core list" where
  "Zap_cores pf opts =
     (if FilePerLevel opts then
        (let (opts1, c1) = NewZapCore pf opts ''debug.log'' debugPriority;
             (opts2, c2) = NewZapCore pf opts1 ''info.log'' infoPriority;
             (opts3, c3) = NewZapCore pf opts2 ''warn.log'' warnPriority;
             (opts4, c4) = NewZapCore pf opts3 ''error.log'' errorPriority
         in (opts4, [c1, c2, c3, c4]))
      else
        (let defaultLevel = NewAtomicLevelAt (logLevel (unicode_ToLower pf) (LogLevel opts));
             (opts1, c) = NewZapCore pf opts (LogFile opts) defaultLevel
         in (opts1, [c])))"

definition Zap :: "platform \<Rightarrow> heap \<Rightarrow> Config \<Rightarrow> heap \<times> Config \<times> addr" where
  "Zap pf h opts =
     (let (opts1, cores) = Zap_cores pf opts;
          opts2 = (if StacktraceLevel opts1 = [] then opts1\<lparr>StacktraceLevel := ''error''\<rparr>
                   else opts1);
          (h1, l) = zap_New h cores
                      [AddCaller, AddCallerSkip 2,
                       AddStacktrace (LevelOf (logLevel (unicode_ToLower pf) (StacktraceLevel opts2)))]
      in (h1, opts2, l))"

section \<open>The package state and the methods of baseLogger\<close>

text \<open>
  The state of the process as the package sees it: the store of zap loggers, the package
  variable \<^verbatim>\<open>logger\<close> (\<open>None\<close> is nil; the variable is unexported and only \<^verbatim>\<open>New\<close> stores
  into it, always a \<^verbatim>\<open>baseLogger\<close>) and zap's own global logger, which \<^verbatim>\<open>New\<close> replaces.
\<close>

record state =
  heap :: heap
  logger :: "baseLogger option"
  zap_globalL :: "addr option"

definition newLoggerWithExtraSkip :: "state \<Rightarrow> addr \<Rightarrow> int \<Rightarrow> (state \<times> baseLogger) option" where
  "newLoggerWithExtraSkip st l skip =
     (case zap_WithOptions (heap st) l [AddCallerSkip skip] of
        None \<Rightarrow> None
      | Some (h1, l1) \<Rightarrow> Some (st\<lparr>heap := h1\<rparr>, \<lparr>Logger = l1\<rparr>))"

definition baseLogger_AddCallerSkip :: "state \<Rightarrow> baseLogger \<Rightarrow> int \<Rightarrow> (state \<times> baseLogger) option" where
  "baseLogger_AddCallerSkip st b skip = newLoggerWithExtraSkip st (Logger b) skip"

definition baseLogger_WithName :: "state \<Rightarrow> baseLogger \<Rightarrow> string \<Rightarrow> (state \<times> baseLogger) option" where
  "baseLogger_WithName st b nm =
     (case zap_Named (heap st) (Logger b) nm of
        None \<Rightarrow> None
      | Some (h1, l) \<Rightarrow> newLoggerWithExtraSkip (st\<lparr>heap := h1\<rparr>) l (- 1))"

definition baseLogger_WithValues :: "state \<Rightarrow> baseLogger \<Rightarrow> val list \<Rightarrow> (state \<times> baseLogger) option" where
  "baseLogger_WithValues st b keysAndValues =
     (case zap_With (heap st) (Logger b) (handleFields keysAndValues []) of
        None \<Rightarrow> None
      | Some (h1, l) \<Rightarrow> newLoggerWithExtraSkip (st\<lparr>heap := h1\<rparr>) l (- 1))"

text \<open>
  An emission through a \<^verbatim>\<open>baseLogger\<close> (the methods \<^verbatim>\<open>Debug\<close>, \<^verbatim>\<open>Info\<close>, \<^verbatim>\<open>Warn\<close>, \<^verbatim>\<open>Error\<close> and
  \<^verbatim>\<open>Fatal\<close> pass the message and the fields on to the embedded zap logger at their level):
  the entries written, or \<open>None\<close> when the embedded pointer is nil.
\<close>

definition emit :: "state \<Rightarrow> baseLogger \<Rightarrow> Level \<Rightarrow> string \<Rightarrow> Field list \<Rightarrow> (WriteSyncer \<times> Entry) list option" where
  "emit st b lev msg fs = map_option (\<lambda>l. zap_log l lev msg fs) (lookup (heap st) (Logger b))"

section \<open>Contexts\<close>

text \<open>
  A \<^verbatim>\<open>context.Context\<close> is nil (\<open>None\<close>) or a chain of key/value bindings made by
  \<^verbatim>\<open>context.WithValue\<close>, the innermost first; \<^verbatim>\<open>Value\<close> returns the innermost binding of the
  key and the nil interface when there is none. \<^verbatim>\<open>LoggerKey\<close> is the string constant of
  \<^verbatim>\<open>zap.go\<close>.
\<close>

type_synonym Context = "(val \<times> val) list"

definition LoggerKey :: val where
  "LoggerKey = VString ''_logger''"

definition Value :: "Context \<Rightarrow> val \<Rightarrow> val" where
  "Value c k = (case map_of c k of None \<Rightarrow> VNil | Some v \<Rightarrow> v)"

text \<open>The type assertion \<^verbatim>\<open>l.(Logger)\<close>.\<close>

fun as_Logger :: "val \<Rightarrow> Logger option" where
  "as_Logger (VLogger l) = Some l"
| "as_Logger v = None"

text \<open>
  The method \<^verbatim>\<open>WithContext\<close>. The result is a \<^verbatim>\<open>Logger\<close> interface value; it is nil
  (\<open>None\<close>) when the package variable is.
\<close>

definition baseLogger_WithContext :: "state \<Rightarrow> baseLogger \<Rightarrow> Context option \<Rightarrow> Logger option" where
  "baseLogger_WithContext st b c =
     (case c of
        None \<Rightarrow> map_option BaseLogger (logger st)
      | Some cx \<Rightarrow>
          (case as_Logger (Value cx LoggerKey) of
             Some ctxLogger \<Rightarrow> Some ctxLogger
           | None \<Rightarrow> map_option BaseLogger (logger st)))"

section \<open>The package-level functions\<close>

definition New :: "platform \<Rightarrow> state \<Rightarrow> Config \<Rightarrow> state \<times> Config \<times> baseLogger" where
  "New pf st opts =
     (let (h1, opts1, l) = Zap pf (heap st) opts;
          b = \<lparr>Logger = l\<rparr>
      in (st\<lparr>heap := h1, logger := Some b, zap_globalL := Some l\<rparr>, opts1, b))"

definition newDefaultLogger :: "platform \<Rightarrow> state \<Rightarrow> state \<times> baseLogger" where
  "newDefaultLogger pf st =
     (let (st1, opts1, b) =
            New pf st \<lparr>LogDir = LOG_DIR pf, LogFile = [], MaxSize = 0, MaxBackups = 0,
                       MaxAge = 0, Compress = False, LogLevel = [], JsonEncode = True,
                       StacktraceLevel = [], Stdout = False, FilePerLevel = True\<rparr>
      in (st1, b))"

definition defaultLogger :: "platform \<Rightarrow> state \<Rightarrow> state \<times> baseLogger" where
  "defaultLogger pf st =
     (case logger st of
        None \<Rightarrow> newDefaultLogger pf st
      | Some b \<Rightarrow> (st, b))"

text \<open>
  \<^verbatim>\<open>WithValues\<close> of the package passes the slice \<^verbatim>\<open>keysAndValues\<close> itself as the one
  variadic argument of the method (there is no \<^verbatim>\<open>...\<close> at the call).
\<close>

definition WithName :: "platform \<Rightarrow> state \<Rightarrow> string \<Rightarrow> (state \<times> baseLogger) option" where
  "WithName pf st nm =
     (let (st1, d) = defaultLogger pf st in
      case baseLogger_WithName st1 d nm of
        None \<Rightarrow> None
      | Some (st2, b) \<Rightarrow> baseLogger_AddCallerSkip st2 b (- 1))"

definition WithValues :: "platform \<Rightarrow> state \<Rightarrow> val list \<Rightarrow> (state \<times> baseLogger) option" where
  "WithValues pf st keysAndValues =
     (let (st1, d) = defaultLogger pf st in
      case baseLogger_WithValues st1 d [VSlice keysAndValues] of
        None \<Rightarrow> None
      | Some (st2, b) \<Rightarrow> baseLogger_AddCallerSkip st2 b (- 1))"

definition WithContext :: "platform \<Rightarrow> state \<Rightarrow> Context option \<Rightarrow> state \<times> Logger option" where
  "WithContext pf st c =
     (let (st1, d) = defaultLogger pf st in (st1, baseLogger_WithContext st1 d c))"

section \<open>Observations used in the statements\<close>

text \<open>
  The files a write syncer writes to, the directory a \<^verbatim>\<open>Config\<close> resolves to once
  \<^verbatim>\<open>newWriteSyncer\<close> has run on it, and a platform and two configurations for the
  concrete instances below: one with a single file, one with a file per level.
\<close>

fun files_of :: "WriteSyncer \<Rightarrow> path list" where
  "files_of (AddSync_hook hook) = [Filename hook]"
| "files_of AddSync_Stdout = []"
| "files_of (NewMultiWriteSyncer ws) = concat (map files_of ws)"

definition sink_files :: "Core \<Rightarrow> path list" where
  "sink_files c = files_of (out c)"

definition resolved_LogDir :: "platform \<Rightarrow> Config \<Rightarrow> string" where
  "resolved_LogDir pf opts = (if LogDir opts = [] then LOG_DIR pf else LogDir opts)"

text \<open>The logger object at the address that \<^verbatim>\<open>Zap\<close> returns, and the \<^verbatim>\<open>Config\<close> it leaves.\<close>

definition Zap_logger :: "platform \<Rightarrow> heap \<Rightarrow> Config \<Rightarrow> zap_Logger option" where
  "Zap_logger pf h opts = (case Zap pf h opts of (h1, opts1, l) \<Rightarrow> lookup h1 l)"

definition Zap_Config :: "platform \<Rightarrow> heap \<Rightarrow> Config \<Rightarrow> Config" where
  "Zap_Config pf h opts = (case Zap pf h opts of (h1, opts1, l) \<Rightarrow> opts1)"

text \<open>The \<^verbatim>\<open>Config\<close> as \<^verbatim>\<open>New\<close> leaves it.\<close>

definition New_Config :: "platform \<Rightarrow> state \<Rightarrow> Config \<Rightarrow> Config" where
  "New_Config pf st opts = (case New pf st opts of (st1, opts1, b) \<Rightarrow> opts1)"

definition example_platform :: platform where
  "example_platform = \<lparr>LOG_DIR = ''/var/log'', unicode_ToLower = map toLowerASCII\<rparr>"

definition single_file_Config :: Config where
  "single_file_Config =
     \<lparr>LogDir = [], LogFile = ''app.log'', MaxSize = 100, MaxBackups = 3, MaxAge = 7,
      Compress = False, LogLevel = ''Info'', JsonEncode = True, StacktraceLevel = [],
      Stdout = True, FilePerLevel = False\<rparr>"

definition per_level_Config :: Config where
  "per_level_Config = single_file_Config\<lparr>FilePerLevel := True\<rparr>"

definition empty_state :: state where
  "empty_state = \<lparr>heap = [], logger = None, zap_globalL = None\<rparr>"

section \<open>Key-value coercion: the loop and the scan\<close>

declare handleFields_loop.simps [simp del]

lemma drop_eq_ConsD:
  assumes "drop i xs = x # rest"
  shows "i < length xs" and "xs ! i = x" and "drop (Suc i) xs = rest"
proof -
  show i: "i < length xs"
    using assms by (cases "i < length xs") simp_all
  from i have "drop i xs = xs ! i # drop (Suc i) xs"
    by (simp add: Cons_nth_drop_Suc)
  with assms show "xs ! i = x" and "drop (Suc i) xs = rest"
    by simp_all
qed

lemma loop_past_end: "length args \<le> i \<Longrightarrow> handleFields_loop args i flds = flds"
  by (subst handleFields_loop.simps) simp

lemma loop_last:
  assumes "drop i args = [x]"
  shows "handleFields_loop args i flds = flds"
proof -
  from assms have "length (drop i args) = 1" by simp
  then have "i = length args - 1" and "i < length args" by simp_all
  then show ?thesis
    by (subst handleFields_loop.simps) simp
qed

lemma loop_not_string:
  assumes "drop i args = x # y # rest" and "as_string x = None"
  shows "handleFields_loop args i flds = flds"
proof -
  from assms(1) have "args ! i = x" by (rule drop_eq_ConsD)
  with assms(2) show ?thesis
    by (subst handleFields_loop.simps) simp
qed

lemma loop_pair:
  assumes "drop i args = VString k # y # rest"
  shows "handleFields_loop args i flds = handleFields_loop args (i + 2) (flds @ [Any k y])"
proof -
  from assms have i: "i < length args" and x: "args ! i = VString k"
    and d: "drop (Suc i) args = y # rest"
    by (rule drop_eq_ConsD)+
  from d have y: "args ! (i + 1) = y" and "Suc i < length args"
    using drop_eq_ConsD [OF d] by simp_all
  then have "i \<noteq> length args - 1" by arith
  with i x y show ?thesis
    by (subst handleFields_loop.simps) simp
qed

lemma as_string_Some: "as_string x = Some k \<Longrightarrow> x = VString k"
  by (cases x) simp_all

lemma scan_pairs_not_string: "as_string x = None \<Longrightarrow> scan_pairs (x # y # rest) = []"
  by (cases x) simp_all

text \<open>
  The loop from index \<open>i\<close> appends to what it has the scan of the arguments from \<open>i\<close> on.
  The induction is on the number of arguments left.
\<close>

lemma loop_scan: "handleFields_loop args i flds = flds @ scan_pairs (drop i args)"
proof (induction "length args - i" arbitrary: i flds rule: less_induct)
  case less
  show ?case
  proof (cases "drop i args")
    case Nil
    then show ?thesis by (simp add: loop_past_end)
  next
    case (Cons x xs)
    note d = this
    show ?thesis
    proof (cases xs)
      case Nil
      with d show ?thesis by (simp add: loop_last)
    next
      case (Cons y rest)
      with d have d2: "drop i args = x # y # rest" by simp
      show ?thesis
      proof (cases "as_string x")
        case None
        with d2 show ?thesis
          by (simp add: loop_not_string scan_pairs_not_string)
      next
        case (Some k)
        then have x: "x = VString k" by (rule as_string_Some)
        from d2 have "i < length args" and "drop (Suc i) args = y # rest"
          by (rule drop_eq_ConsD)+
        then have r: "drop (i + 2) args = rest"
          using drop_eq_ConsD(3) by fastforce
        from \<open>i < length args\<close> have "length args - (i + 2) < length args - i"
          by arith
        then have "handleFields_loop args (i + 2) (flds @ [Any k y])
                     = (flds @ [Any k y]) @ scan_pairs (drop (i + 2) args)"
          by (rule less)
        with d2 x r show ?thesis
          by (simp add: loop_pair)
      qed
    qed
  qed
qed

lemma handleFields_scan: "handleFields args additional = scan_pairs args @ additional"
  by (cases args) (simp_all add: handleFields_def loop_scan)

text \<open>
  Claim C1. For every argument list, \<^verbatim>\<open>handleFields\<close> returns the fields of the leading
  well-formed key/value pairs, in order, followed by the additional fields: it is the scan
  that stops at the first element that is not a string key with a value after it. On
  \<^verbatim>\<open>["a", 1, "b", 2]\<close> the result is a=1, b=2; on \<^verbatim>\<open>["a", 1, "b"]\<close> it is a=1 alone; on
  \<^verbatim>\<open>[5, "x"]\<close> it is empty.
\<close>

theorem handleFields_stops_at_first_malformed:
  "handleFields args additional = scan_pairs args @ additional
   \<and> handleFields [VString ''a'', VInt 1, VString ''b'', VInt 2] []
       = [Any ''a'' (VInt 1), Any ''b'' (VInt 2)]
   \<and> handleFields [VString ''a'', VInt 1, VString ''b''] [] = [Any ''a'' (VInt 1)]
   \<and> handleFields [VInt 5, VString ''x''] [] = []"
  by (simp add: handleFields_scan)

section \<open>Logger construction: what \<^verbatim>\<open>Zap\<close> builds\<close>

lemma NewZapCore_eq:
  "NewZapCore pf opts f level =
     (opts\<lparr>LogDir := resolved_LogDir pf opts\<rparr>,
      \<lparr>enc = (if JsonEncode opts then NewJSONEncoder else NewConsoleEncoder),
       out = (let w = AddSync_hook \<lparr>Filename = filepath_Join (resolved_LogDir pf opts)
                                                   (if f = [] then LogFile opts else f),
                                     hook_MaxSize = MaxSize opts, hook_MaxBackups = MaxBackups opts,
                                     hook_MaxAge = MaxAge opts, hook_Compress = Compress opts,
                                     hook_LocalTime = True\<rparr>
              in if Stdout opts then NewMultiWriteSyncer [AddSync_Stdout, w] else w),
       enab = level, ctx = []\<rparr>)"
  by (simp add: NewZapCore_def newWriteSyncer_def NewCore_def resolved_LogDir_def Let_def)

lemma sink_files_NewZapCore:
  "sink_files (snd (NewZapCore pf opts f level))
     = [filepath_Join (resolved_LogDir pf opts) (if f = [] then LogFile opts else f)]"
  by (simp add: NewZapCore_eq sink_files_def Let_def)

lemma enab_NewZapCore: "enab (snd (NewZapCore pf opts f level)) = level"
  by (simp add: NewZapCore_eq)

lemma fst_NewZapCore: "fst (NewZapCore pf opts f level) = opts\<lparr>LogDir := resolved_LogDir pf opts\<rparr>"
  by (simp add: NewZapCore_eq)

lemma resolved_LogDir_idem [simp]:
  "resolved_LogDir pf (opts\<lparr>LogDir := resolved_LogDir pf opts\<rparr>) = resolved_LogDir pf opts"
  by (simp add: resolved_LogDir_def)

lemma Zap_cores_per_level:
  assumes "FilePerLevel opts"
  shows "Zap_cores pf opts =
     (opts\<lparr>LogDir := resolved_LogDir pf opts\<rparr>,
      [snd (NewZapCore pf opts ''debug.log'' debugPriority),
       snd (NewZapCore pf opts ''info.log'' infoPriority),
       snd (NewZapCore pf opts ''warn.log'' warnPriority),
       snd (NewZapCore pf opts ''error.log'' errorPriority)])"
  using assms by (simp add: Zap_cores_def NewZapCore_eq Let_def)

lemma Zap_cores_single:
  assumes "\<not> FilePerLevel opts"
  shows "Zap_cores pf opts =
     (opts\<lparr>LogDir := resolved_LogDir pf opts\<rparr>,
      [snd (NewZapCore pf opts (LogFile opts)
              (NewAtomicLevelAt (logLevel (unicode_ToLower pf) (LogLevel opts))))])"
  using assms by (simp add: Zap_cores_def NewZapCore_eq Let_def)

lemma fst_Zap_cores: "fst (Zap_cores pf opts) = opts\<lparr>LogDir := resolved_LogDir pf opts\<rparr>"
  by (cases "FilePerLevel opts") (simp_all add: Zap_cores_per_level Zap_cores_single)


lemma Zap_eq:
  "Zap pf h opts =
     (h @ [\<lparr>core = snd (Zap_cores pf opts), name = [], addCaller = False, callerSkip = 0,
             addStack = LevelOf (FatalLevel + 1)\<rparr>,
           \<lparr>core = snd (Zap_cores pf opts), name = [], addCaller = True, callerSkip = 2,
             addStack = LevelOf (logLevel (unicode_ToLower pf)
                 (if StacktraceLevel opts = [] then ''error'' else StacktraceLevel opts))\<rparr>],
      opts\<lparr>LogDir := resolved_LogDir pf opts,
           StacktraceLevel := (if StacktraceLevel opts = [] then ''error'' else StacktraceLevel opts)\<rparr>,
      Suc (length h))"
  by (cases "Zap_cores pf opts")
     (use fst_Zap_cores [of pf opts] in
       \<open>auto simp add: Zap_def zap_New_def alloc_def Let_def\<close>)

lemma Zap_logger_eq:
  "Zap_logger pf h opts =
     Some \<lparr>core = snd (Zap_cores pf opts), name = [], addCaller = True, callerSkip = 2,
           addStack = LevelOf (logLevel (unicode_ToLower pf)
                 (if StacktraceLevel opts = [] then ''error'' else StacktraceLevel opts))\<rparr>"
  by (simp add: Zap_logger_def Zap_eq lookup_def nth_append)

lemma Zap_Config_eq:
  "Zap_Config pf h opts =
     opts\<lparr>LogDir := resolved_LogDir pf opts,
          StacktraceLevel := (if StacktraceLevel opts = [] then ''error'' else StacktraceLevel opts)\<rparr>"
  by (simp add: Zap_Config_def Zap_eq)

lemma error_excludes_lower:
  "word_sle ErrorLevel lev \<Longrightarrow> lev \<noteq> DebugLevel \<and> lev \<noteq> InfoLevel \<and> lev \<noteq> WarnLevel"
  by (auto simp add: ErrorLevel_def DebugLevel_def InfoLevel_def WarnLevel_def word_sle_eq)

lemma levels_below_error:
  "\<not> word_sle ErrorLevel DebugLevel" "\<not> word_sle ErrorLevel InfoLevel" "\<not> word_sle ErrorLevel WarnLevel"
  by (simp_all add: ErrorLevel_def DebugLevel_def InfoLevel_def WarnLevel_def word_sle_eq)

lemma levels_distinct:
  "DebugLevel \<noteq> InfoLevel" "DebugLevel \<noteq> WarnLevel" "InfoLevel \<noteq> WarnLevel"
  by (simp_all add: DebugLevel_def InfoLevel_def WarnLevel_def)


lemma per_level_cores:
  assumes "FilePerLevel opts"
  shows "snd (Zap_cores pf opts) =
      [snd (NewZapCore pf opts ''debug.log'' debugPriority),
       snd (NewZapCore pf opts ''info.log'' infoPriority),
       snd (NewZapCore pf opts ''warn.log'' warnPriority),
       snd (NewZapCore pf opts ''error.log'' errorPriority)]"
  using assms by (simp add: Zap_cores_per_level)

lemma per_level_files:
  assumes "FilePerLevel opts"
  shows "map sink_files (snd (Zap_cores pf opts)) =
         [[filepath_Join (resolved_LogDir pf opts) ''debug.log''],
          [filepath_Join (resolved_LogDir pf opts) ''info.log''],
          [filepath_Join (resolved_LogDir pf opts) ''warn.log''],
          [filepath_Join (resolved_LogDir pf opts) ''error.log'']]"
  unfolding per_level_cores [OF assms] by (simp add: sink_files_NewZapCore)

lemma per_level_enabled:
  assumes "FilePerLevel opts"
  shows "map (\<lambda>c. Enabled (enab c) lev) (snd (Zap_cores pf opts)) =
      [lev = DebugLevel, lev = InfoLevel, lev = WarnLevel, word_sle ErrorLevel lev]"
  unfolding per_level_cores [OF assms]
  by (simp add: enab_NewZapCore debugPriority_def infoPriority_def warnPriority_def
        errorPriority_def)

lemma core_Zap_logger:
  "\<exists>lg. Zap_logger pf h opts = Some lg \<and> core lg = snd (Zap_cores pf opts)"
  by (simp add: Zap_logger_eq)


text \<open>
  Claim C2. With \<^verbatim>\<open>FilePerLevel\<close> set, the logger that \<^verbatim>\<open>Zap\<close> builds has four sinks, writing
  to debug.log, info.log, warn.log and error.log in the resolved directory. A debug-level
  emission is enabled by the debug.log sink and by no other, an info-level emission by the
  info.log sink only, a warn-level emission by the warn.log sink only, and every level at
  or above error is enabled by the error.log sink (and by no other).
\<close>

theorem file_per_level_routing:
  assumes "FilePerLevel opts"
  shows "\<exists>lg. Zap_logger pf h opts = Some lg
     \<and> map sink_files (core lg) =
         [[filepath_Join (resolved_LogDir pf opts) ''debug.log''],
          [filepath_Join (resolved_LogDir pf opts) ''info.log''],
          [filepath_Join (resolved_LogDir pf opts) ''warn.log''],
          [filepath_Join (resolved_LogDir pf opts) ''error.log'']]
     \<and> map (\<lambda>c. Enabled (enab c) DebugLevel) (core lg) = [True, False, False, False]
     \<and> map (\<lambda>c. Enabled (enab c) InfoLevel) (core lg) = [False, True, False, False]
     \<and> map (\<lambda>c. Enabled (enab c) WarnLevel) (core lg) = [False, False, True, False]
     \<and> (\<forall>lev. word_sle ErrorLevel lev \<longrightarrow>
           map (\<lambda>c. Enabled (enab c) lev) (core lg) = [False, False, False, True])"
proof -
  obtain lg where lg: "Zap_logger pf h opts = Some lg" and c: "core lg = snd (Zap_cores pf opts)"
    using core_Zap_logger by blast
  have files: "map sink_files (core lg) =
         [[filepath_Join (resolved_LogDir pf opts) ''debug.log''],
          [filepath_Join (resolved_LogDir pf opts) ''info.log''],
          [filepath_Join (resolved_LogDir pf opts) ''warn.log''],
          [filepath_Join (resolved_LogDir pf opts) ''error.log'']]"
    unfolding c by (rule per_level_files [OF assms])
  have en: "map (\<lambda>c. Enabled (enab c) lev) (core lg) =
      [lev = DebugLevel, lev = InfoLevel, lev = WarnLevel, word_sle ErrorLevel lev]" for lev
    unfolding c by (rule per_level_enabled [OF assms])
  have d: "map (\<lambda>c. Enabled (enab c) DebugLevel) (core lg) = [True, False, False, False]"
    unfolding en using levels_distinct levels_below_error by simp
  have i: "map (\<lambda>c. Enabled (enab c) InfoLevel) (core lg) = [False, True, False, False]"
    unfolding en using levels_distinct levels_below_error by simp
  have w: "map (\<lambda>c. Enabled (enab c) WarnLevel) (core lg) = [False, False, True, False]"
    unfolding en using levels_distinct levels_below_error by simp
  have e: "\<forall>lev. word_sle ErrorLevel lev \<longrightarrow>
           map (\<lambda>c. Enabled (enab c) lev) (core lg) = [False, False, False, True]"
    unfolding en using error_excludes_lower by simp
  from lg files d i w e show ?thesis
    by (intro exI [of _ lg] conjI)
qed

lemma example_dirs:
  "resolved_LogDir example_platform per_level_Config = ''/var/log''"
  "resolved_LogDir example_platform single_file_Config = ''/var/log''"
  by (simp_all add: resolved_LogDir_def per_level_Config_def single_file_Config_def
        example_platform_def)

lemma logLevel_Info_example: "logLevel (unicode_ToLower example_platform) ''Info'' = InfoLevel"
  by (simp add: logLevel_def strings_ToLower_def isASCII_def toLowerASCII_def char_of_def
      bit_Suc_0_iff)

text \<open>An instance: the example configuration with a file per level, at the fatal level.\<close>

theorem file_per_level_routing_witness:
  "FilePerLevel per_level_Config
   \<and> (\<exists>lg. Zap_logger example_platform [] per_level_Config = Some lg
     \<and> map sink_files (core lg) =
         [[filepath_Join ''/var/log'' ''debug.log''],
          [filepath_Join ''/var/log'' ''info.log''],
          [filepath_Join ''/var/log'' ''warn.log''],
          [filepath_Join ''/var/log'' ''error.log'']]
     \<and> map (\<lambda>c. Enabled (enab c) FatalLevel) (core lg) = [False, False, False, True])"
proof -
  have h: "FilePerLevel per_level_Config"
    by (simp add: per_level_Config_def)
  have f: "word_sle ErrorLevel FatalLevel"
    by (simp add: ErrorLevel_def FatalLevel_def)
  from file_per_level_routing [OF h, of example_platform "[]"]
  obtain lg where 1: "Zap_logger example_platform [] per_level_Config = Some lg"
    and 2: "map sink_files (core lg) =
         [[filepath_Join (resolved_LogDir example_platform per_level_Config) ''debug.log''],
          [filepath_Join (resolved_LogDir example_platform per_level_Config) ''info.log''],
          [filepath_Join (resolved_LogDir example_platform per_level_Config) ''warn.log''],
          [filepath_Join (resolved_LogDir example_platform per_level_Config) ''error.log'']]"
    and 3: "\<forall>lev. word_sle ErrorLevel lev \<longrightarrow>
           map (\<lambda>c. Enabled (enab c) lev) (core lg) = [False, False, False, True]"
    by (elim exE conjE)
  from 3 f have 4: "map (\<lambda>c. Enabled (enab c) FatalLevel) (core lg) = [False, False, False, True]"
    by simp
  from h 1 2 [unfolded example_dirs] 4 show ?thesis
    by (intro conjI exI [of _ lg])
qed

text \<open>
  Claim C3. With \<^verbatim>\<open>FilePerLevel\<close> unset, the logger that \<^verbatim>\<open>Zap\<close> builds has exactly one
  sink; it writes to the configured file name \<^verbatim>\<open>LogFile\<close> in the resolved directory, and it
  enables a level if and only if the level is at or above \<^verbatim>\<open>logLevel(opts.LogLevel)\<close>.
\<close>

theorem single_file_sink:
  assumes "\<not> FilePerLevel opts"
  shows "\<exists>lg c. Zap_logger pf h opts = Some lg \<and> core lg = [c]
     \<and> sink_files c = [filepath_Join (resolved_LogDir pf opts) (LogFile opts)]
     \<and> (\<forall>lev. Enabled (enab c) lev
                 \<longleftrightarrow> word_sle (logLevel (unicode_ToLower pf) (LogLevel opts)) lev)"
proof -
  let ?c = "snd (NewZapCore pf opts (LogFile opts)
              (NewAtomicLevelAt (logLevel (unicode_ToLower pf) (LogLevel opts))))"
  obtain lg where lg: "Zap_logger pf h opts = Some lg" and c: "core lg = snd (Zap_cores pf opts)"
    using core_Zap_logger by blast
  from assms c have one: "core lg = [?c]"
    by (simp add: Zap_cores_single)
  have f: "sink_files ?c = [filepath_Join (resolved_LogDir pf opts) (LogFile opts)]"
    by (simp add: sink_files_NewZapCore)
  have e: "\<forall>lev. Enabled (enab ?c) lev
             \<longleftrightarrow> word_sle (logLevel (unicode_ToLower pf) (LogLevel opts)) lev"
    by (simp add: enab_NewZapCore NewAtomicLevelAt_def)
  from lg one f e show ?thesis
    by (intro exI [of _ lg] exI [of _ ?c] conjI)
qed

text \<open>An instance: the example configuration with a single file, whose minimum level is info.\<close>

theorem single_file_sink_witness:
  "\<not> FilePerLevel single_file_Config
   \<and> (\<exists>lg c. Zap_logger example_platform [] single_file_Config = Some lg \<and> core lg = [c]
        \<and> sink_files c = [filepath_Join ''/var/log'' ''app.log'']
        \<and> Enabled (enab c) WarnLevel \<and> \<not> Enabled (enab c) DebugLevel)"
proof -
  have h: "\<not> FilePerLevel single_file_Config"
    by (simp add: single_file_Config_def)
  have l: "LogLevel single_file_Config = ''Info''" "LogFile single_file_Config = ''app.log''"
    by (simp_all add: single_file_Config_def)
  have w: "word_sle InfoLevel WarnLevel" "\<not> word_sle InfoLevel DebugLevel"
    by (simp_all add: InfoLevel_def WarnLevel_def DebugLevel_def word_sle_eq)
  from single_file_sink [OF h, of example_platform "[]"]
  obtain lg c where 1: "Zap_logger example_platform [] single_file_Config = Some lg"
    and 2: "core lg = [c]"
    and 3: "sink_files c = [filepath_Join (resolved_LogDir example_platform single_file_Config)
                              (LogFile single_file_Config)]"
    and 4: "\<forall>lev. Enabled (enab c) lev \<longleftrightarrow>
               word_sle (logLevel (unicode_ToLower example_platform) (LogLevel single_file_Config)) lev"
    by (elim exE conjE)
  from 4 w have 5: "Enabled (enab c) WarnLevel" and 6: "\<not> Enabled (enab c) DebugLevel"
    unfolding l logLevel_Info_example by simp_all
  from h 1 2 3 [unfolded example_dirs l] 5 6 show ?thesis
    by (intro conjI exI [of _ lg] exI [of _ c])
qed

section \<open>Stack traces, the \<^verbatim>\<open>Config\<close> after construction, and \<^verbatim>\<open>logLevel\<close>\<close>

lemma logLevel_error: "logLevel u ''error'' = ErrorLevel"
  by (simp add: logLevel_def strings_ToLower_def isASCII_def toLowerASCII_def char_of_def
      bit_Suc_0_iff)

lemma zap_log_Stack:
  "e \<in> set (zap_log lg lev msg fs) \<Longrightarrow> entry_Stack (snd e) = Enabled (addStack lg) lev"
  by (auto simp add: zap_log_def)

lemma New_Config_eq: "New_Config pf st opts = Zap_Config pf (heap st) opts"
  by (simp add: New_Config_def New_def Zap_Config_def Let_def split: prod.splits)

text \<open>
  Claim C8. When the \<^verbatim>\<open>StacktraceLevel\<close> of the \<^verbatim>\<open>Config\<close> is the empty string, \<^verbatim>\<open>Zap\<close> uses
  "error": it stores that string in the \<^verbatim>\<open>Config\<close>, the stack-trace enabler of the logger it
  builds is the error level, so the enabler admits a level exactly when the level is at or
  above error, and every entry the logger writes carries a stack trace exactly then.
\<close>

theorem empty_StacktraceLevel_means_error:
  assumes "StacktraceLevel opts = []"
  shows "StacktraceLevel (Zap_Config pf h opts) = ''error''
     \<and> (\<exists>lg. Zap_logger pf h opts = Some lg
          \<and> addStack lg = LevelOf ErrorLevel
          \<and> (\<forall>lev. Enabled (addStack lg) lev \<longleftrightarrow> word_sle ErrorLevel lev)
          \<and> (\<forall>lev msg fs. \<forall>e \<in> set (zap_log lg lev msg fs).
                 entry_Stack (snd e) \<longleftrightarrow> word_sle ErrorLevel lev))"
proof -
  from assms have c: "StacktraceLevel (Zap_Config pf h opts) = ''error''"
    by (simp add: Zap_Config_eq)
  obtain lg where lg: "Zap_logger pf h opts = Some lg"
    and a: "addStack lg = LevelOf (logLevel (unicode_ToLower pf) ''error'')"
    using assms by (simp add: Zap_logger_eq)
  from a have a': "addStack lg = LevelOf ErrorLevel"
    by (simp add: logLevel_error)
  then have en: "\<forall>lev. Enabled (addStack lg) lev \<longleftrightarrow> word_sle ErrorLevel lev"
    by simp
  have st: "\<forall>lev msg fs. \<forall>e \<in> set (zap_log lg lev msg fs).
                 entry_Stack (snd e) \<longleftrightarrow> word_sle ErrorLevel lev"
    using zap_log_Stack [of _ lg] a' by simp
  from c lg a' en st show ?thesis
    by (intro conjI exI [of _ lg])
qed


text \<open>
  An instance: the example configuration has no stack-trace level; the logger built from
  it attaches a stack at the fatal level and none at the warn level.
\<close>

theorem empty_StacktraceLevel_means_error_witness:
  "StacktraceLevel single_file_Config = []
   \<and> StacktraceLevel (Zap_Config example_platform [] single_file_Config) = ''error''
   \<and> (\<exists>lg. Zap_logger example_platform [] single_file_Config = Some lg
          \<and> Enabled (addStack lg) FatalLevel \<and> \<not> Enabled (addStack lg) WarnLevel)"
proof -
  have h: "StacktraceLevel single_file_Config = []"
    by (simp add: single_file_Config_def)
  have w: "word_sle ErrorLevel FatalLevel" "\<not> word_sle ErrorLevel WarnLevel"
    by (simp_all add: ErrorLevel_def FatalLevel_def WarnLevel_def word_sle_eq)
  note t = empty_StacktraceLevel_means_error [OF h, of example_platform "[]"]
  from t have 1: "StacktraceLevel (Zap_Config example_platform [] single_file_Config) = ''error''"
    by (rule conjunct1)
  from t have "\<exists>lg. Zap_logger example_platform [] single_file_Config = Some lg
          \<and> addStack lg = LevelOf ErrorLevel
          \<and> (\<forall>lev. Enabled (addStack lg) lev \<longleftrightarrow> word_sle ErrorLevel lev)
          \<and> (\<forall>lev msg fs. \<forall>e \<in> set (zap_log lg lev msg fs).
                 entry_Stack (snd e) \<longleftrightarrow> word_sle ErrorLevel lev)"
    by (rule conjunct2)
  then obtain lg where 2: "Zap_logger example_platform [] single_file_Config = Some lg"
    and 3: "\<forall>lev. Enabled (addStack lg) lev \<longleftrightarrow> word_sle ErrorLevel lev"
    by (elim exE conjE)
  from 3 w have 4: "Enabled (addStack lg) FatalLevel" and 5: "\<not> Enabled (addStack lg) WarnLevel"
    by simp_all
  from h 1 2 4 5 show ?thesis
    by (intro conjI exI [of _ lg])
qed

text \<open>
  The \<^verbatim>\<open>Config\<close> is not left as it was: \<^verbatim>\<open>Zap\<close> assigns to \<^verbatim>\<open>opts.StacktraceLevel\<close> and
  \<^verbatim>\<open>newWriteSyncer\<close> assigns to \<^verbatim>\<open>opts.LogDir\<close>, both through the pointer the caller passed.
  On the example configuration, where both are empty, \<^verbatim>\<open>New\<close> leaves "error" and the value
  of \<^verbatim>\<open>LOG_DIR\<close> in them.
\<close>

theorem Config_changed_by_New_counterexample:
  "StacktraceLevel single_file_Config = [] \<and> LogDir single_file_Config = []
   \<and> StacktraceLevel (New_Config example_platform empty_state single_file_Config) = ''error''
   \<and> LogDir (New_Config example_platform empty_state single_file_Config) = ''/var/log''
   \<and> New_Config example_platform empty_state single_file_Config \<noteq> single_file_Config"
proof -
  have a: "StacktraceLevel single_file_Config = []" "LogDir single_file_Config = []"
    by (simp_all add: single_file_Config_def)
  have b: "StacktraceLevel (New_Config example_platform empty_state single_file_Config) = ''error''"
    by (simp add: New_Config_eq Zap_Config_eq a)
  have c: "LogDir (New_Config example_platform empty_state single_file_Config) = ''/var/log''"
    by (simp add: New_Config_eq Zap_Config_eq resolved_LogDir_def a example_platform_def)
  from a(1) b have "New_Config example_platform empty_state single_file_Config \<noteq> single_file_Config"
    by (metis list.distinct(1))
  with a b c show ?thesis by (intro conjI)
qed

text \<open>
  Claim C5, amended. Constructing a logger leaves every field of the \<^verbatim>\<open>Config\<close> as it was,
  except that an empty \<^verbatim>\<open>LogDir\<close> is replaced by the value of the environment variable
  \<^verbatim>\<open>LOG_DIR\<close> and an empty \<^verbatim>\<open>StacktraceLevel\<close> is replaced by "error". A \<^verbatim>\<open>Config\<close> in which
  both are non-empty is unchanged.
\<close>

theorem New_writes_defaults_into_Config:
  "Zap_Config pf h opts =
     opts\<lparr>LogDir := (if LogDir opts = [] then LOG_DIR pf else LogDir opts),
          StacktraceLevel := (if StacktraceLevel opts = [] then ''error''
                              else StacktraceLevel opts)\<rparr>
   \<and> New_Config pf st opts = Zap_Config pf (heap st) opts
   \<and> (LogDir opts \<noteq> [] \<and> StacktraceLevel opts \<noteq> [] \<longrightarrow> New_Config pf st opts = opts)"
  by (simp add: New_Config_eq Zap_Config_eq resolved_LogDir_def)


text \<open>
  An instance: a configuration with a directory and a stack-trace level is the same after
  \<^verbatim>\<open>New\<close>.
\<close>

theorem New_writes_defaults_into_Config_witness:
  "LogDir (single_file_Config\<lparr>LogDir := ''/data/logs'', StacktraceLevel := ''warn''\<rparr>) \<noteq> []
   \<and> StacktraceLevel (single_file_Config\<lparr>LogDir := ''/data/logs'', StacktraceLevel := ''warn''\<rparr>) \<noteq> []
   \<and> New_Config example_platform empty_state
         (single_file_Config\<lparr>LogDir := ''/data/logs'', StacktraceLevel := ''warn''\<rparr>)
       = single_file_Config\<lparr>LogDir := ''/data/logs'', StacktraceLevel := ''warn''\<rparr>"
  using New_writes_defaults_into_Config
          [of example_platform "[]"
              "single_file_Config\<lparr>LogDir := ''/data/logs'', StacktraceLevel := ''warn''\<rparr>"
              empty_state]
  by (simp add: empty_state_def)

lemma ToLower_ASCII:
  "list_all isASCII level \<Longrightarrow> strings_ToLower u level = map toLowerASCII level"
  by (simp add: strings_ToLower_def)

lemma lower_names:
  "strings_ToLower u ''warning'' = ''warning''"
  by (simp_all add: strings_ToLower_def isASCII_def toLowerASCII_def)

text \<open>
  The string "warning" is none of debug, info, warn, error and fatal, in any letter case,
  and \<^verbatim>\<open>logLevel\<close> does not send it to the debug level: the switch has the case
  \<^verbatim>\<open>"warn", "warning"\<close>.
\<close>

theorem logLevel_warning_counterexample:
  "strings_ToLower (unicode_ToLower example_platform) ''warning''
      \<notin> set [''debug'', ''info'', ''warn'', ''error'', ''fatal'']
   \<and> logLevel (unicode_ToLower example_platform) ''warning'' = WarnLevel
   \<and> WarnLevel \<noteq> DebugLevel"
  by (simp add: logLevel_def lower_names WarnLevel_def DebugLevel_def)

text \<open>
  Claim C4, amended. \<^verbatim>\<open>logLevel\<close> looks at the lower-cased string only: debug, info, warn or
  warning, error and fatal give their levels, and every other string gives the debug
  level. On a string of ASCII bytes the lower-cased string is the string with its capital
  letters replaced, so two ASCII strings that differ in letter case only have the same
  level.
\<close>

theorem logLevel_table:
  "(strings_ToLower u level = ''debug'' \<longrightarrow> logLevel u level = DebugLevel)
   \<and> (strings_ToLower u level = ''info'' \<longrightarrow> logLevel u level = InfoLevel)
   \<and> (strings_ToLower u level = ''warn'' \<or> strings_ToLower u level = ''warning''
         \<longrightarrow> logLevel u level = WarnLevel)
   \<and> (strings_ToLower u level = ''error'' \<longrightarrow> logLevel u level = ErrorLevel)
   \<and> (strings_ToLower u level = ''fatal'' \<longrightarrow> logLevel u level = FatalLevel)
   \<and> (strings_ToLower u level
         \<notin> set [''debug'', ''info'', ''warn'', ''warning'', ''error'', ''fatal'']
         \<longrightarrow> logLevel u level = DebugLevel)
   \<and> (list_all isASCII level \<longrightarrow> strings_ToLower u level = map toLowerASCII level)
   \<and> (list_all isASCII level \<and> list_all isASCII level'
        \<and> map toLowerASCII level = map toLowerASCII level'
         \<longrightarrow> logLevel u level = logLevel u level')"
proof (intro conjI impI)
  assume "strings_ToLower u level = ''warn'' \<or> strings_ToLower u level = ''warning''"
  then show "logLevel u level = WarnLevel"
    by (elim disjE) (simp_all add: logLevel_def)
next
  assume "list_all isASCII level \<and> list_all isASCII level'
        \<and> map toLowerASCII level = map toLowerASCII level'"
  then have "strings_ToLower u level = strings_ToLower u level'"
    by (simp add: ToLower_ASCII)
  then show "logLevel u level = logLevel u level'"
    by (simp add: logLevel_def)
qed (simp_all add: logLevel_def ToLower_ASCII)


lemma FATAL_lower:
  "list_all isASCII ''FATAL''" "map toLowerASCII ''FATAL'' = ''fatal''"
  by (simp_all add: isASCII_def toLowerASCII_def char_of_def bit_Suc_0_iff)

lemma verbose_lower:
  "strings_ToLower u ''verbose''
     \<notin> set [''debug'', ''info'', ''warn'', ''warning'', ''error'', ''fatal'']"
  by (simp add: strings_ToLower_def isASCII_def toLowerASCII_def)

text \<open>
  Instances: "FATAL" is ASCII, lower-cases to "fatal" and gives the fatal level; "verbose"
  is none of the six names and gives the debug level.
\<close>

theorem logLevel_table_witness:
  "list_all isASCII ''FATAL''
   \<and> strings_ToLower (unicode_ToLower example_platform) ''FATAL'' = ''fatal''
   \<and> logLevel (unicode_ToLower example_platform) ''FATAL'' = FatalLevel
   \<and> strings_ToLower (unicode_ToLower example_platform) ''verbose''
         \<notin> set [''debug'', ''info'', ''warn'', ''warning'', ''error'', ''fatal'']
   \<and> logLevel (unicode_ToLower example_platform) ''verbose'' = DebugLevel"
proof -
  let ?u = "unicode_ToLower example_platform"
  note t = logLevel_table [of ?u "''FATAL''" "''fatal''"]
  from t have "list_all isASCII ''FATAL'' \<longrightarrow> strings_ToLower ?u ''FATAL'' = map toLowerASCII ''FATAL''"
    by (elim conjE)
  with FATAL_lower have 1: "strings_ToLower ?u ''FATAL'' = ''fatal''"
    by simp
  from t have "strings_ToLower ?u ''FATAL'' = ''fatal'' \<longrightarrow> logLevel ?u ''FATAL'' = FatalLevel"
    by (elim conjE)
  with 1 have 2: "logLevel ?u ''FATAL'' = FatalLevel"
    by (rule mp [rotated])
  from logLevel_table [of ?u "''verbose''" "''verbose''"]
  have "strings_ToLower ?u ''verbose''
         \<notin> set [''debug'', ''info'', ''warn'', ''warning'', ''error'', ''fatal'']
         \<longrightarrow> logLevel ?u ''verbose'' = DebugLevel"
    by (elim conjE)
  with verbose_lower [of ?u] have 3: "logLevel ?u ''verbose'' = DebugLevel"
    by (rule mp [rotated])
  from FATAL_lower(1) 1 2 verbose_lower [of ?u] 3 show ?thesis
    by (intro conjI)
qed

end
